theory Spec2Isabelle
  imports Main "HOL-Library.Sublist" "HOL-Library.Char_ord" "HOL-Library.List_Lexorder"
    "HOL-Library.Product_Lexorder"
begin

section \<open>filebunny: the spot and the burrow\<close>

text \<open>
  A shallow embedding of \<^verbatim>\<open>filebunny/storage.py\<close>, \<^verbatim>\<open>filebunny/manager.py\<close>,
  \<^verbatim>\<open>filebunny/utils.py\<close> and \<^verbatim>\<open>filebunny/cli.py\<close>. Exceptions are values of the type
  \<open>error\<close>; a method that mutates the manager or the disk takes both and returns both,
  next to what it returns or raises.
\<close>

subsection \<open>Exceptions\<close>

datatype error =
    FileNotFoundError string
  | NotADirectoryError string
  | FileExistsError string
  | IsADirectoryError string
  | OSError string
  | RuntimeError string
  | TypeError string
  | UnicodeDecodeError
  | CalledProcessError string
  | ShutilError string

text \<open>\<open>str(e)\<close>, the text of the exception that the command line writes out.\<close>

fun message :: "error \<Rightarrow> string" where
  "message (FileNotFoundError s) = s"
| "message (NotADirectoryError s) = s"
| "message (FileExistsError s) = s"
| "message (IsADirectoryError s) = s"
| "message (OSError s) = s"
| "message (RuntimeError s) = s"
| "message (TypeError s) = s"
| "message UnicodeDecodeError = ''invalid start byte''"
| "message (CalledProcessError s) = s"
| "message (ShutilError s) = s"

text \<open>A file name as the messages of the operating system show it, in quotes.\<close>

definition quoted :: "string \<Rightarrow> string" where
  "quoted s = CHR 0x27 # s @ [CHR 0x27]"

subsection \<open>pathlib paths\<close>

text \<open>
  A \<^verbatim>\<open>pathlib.PurePosixPath\<close>: whether it is anchored at the root, and its components.
  \<open>Path\<close> is the constructor from a string: empty components and \<^verbatim>\<open>.\<close> are dropped,
  \<^verbatim>\<open>..\<close> is kept. POSIX's separate root \<^verbatim>\<open>//\<close> is identified with \<^verbatim>\<open>/\<close>.
\<close>

datatype ppath = PPath (is_absolute: bool) (parts: "string list")

fun split_on :: "char \<Rightarrow> string \<Rightarrow> string list" where
  "split_on sep [] = [[]]"
| "split_on sep (c # cs) =
     (if c = sep then [] # split_on sep cs
      else (case split_on sep cs of [] \<Rightarrow> [[c]] | w # ws \<Rightarrow> (c # w) # ws))"

fun join_on :: "char \<Rightarrow> string list \<Rightarrow> string" where
  "join_on sep [] = []"
| "join_on sep [x] = x"
| "join_on sep (x # y # ys) = x @ sep # join_on sep (y # ys)"

definition is_part :: "string \<Rightarrow> bool" where
  "is_part c = (c \<noteq> [] \<and> c \<noteq> ''.'' \<and> CHR ''/'' \<notin> set c)"

definition Path :: "string \<Rightarrow> ppath" where
  "Path s = PPath (take 1 s = ''/'')
              (filter (\<lambda>c. c \<noteq> [] \<and> c \<noteq> ''.'') (split_on CHR ''/'' s))"

definition str :: "ppath \<Rightarrow> string" where
  "str p = (if is_absolute p then CHR ''/'' # join_on CHR ''/'' (parts p)
            else if parts p = [] then ''.'' else join_on CHR ''/'' (parts p))"

text \<open>The operator \<^verbatim>\<open>/\<close>: an absolute right operand replaces the left one.\<close>

definition pjoin :: "ppath \<Rightarrow> ppath \<Rightarrow> ppath" where
  "pjoin a b = (if is_absolute b then b else PPath (is_absolute a) (parts a @ parts b))"

subsection \<open>The file tree\<close>

text \<open>
  The tree the commands act on: the entries of the disk by their resolved path from the
  root (the list of names on the way, the root being \<open>[]\<close>), in directory order.
  A regular file holds its text, a symbolic link the string \<^verbatim>\<open>readlink\<close> returns. The
  tree is meant with every entry's parent a directory entry; a resolved path then names
  its node directly. Ownership, permissions and timestamps are not part of the model.
\<close>

type_synonym fpath = "string list"

datatype node = Dir | File string | Link string

type_synonym fs = "(fpath \<times> node) list"

definition lstat :: "fs \<Rightarrow> fpath \<Rightarrow> node option" where
  "lstat f p = (if p = [] then Some Dir else map_of f p)"

definition exists :: "fs \<Rightarrow> fpath \<Rightarrow> bool" where
  "exists f p = (lstat f p \<noteq> None)"

definition is_dir :: "fs \<Rightarrow> fpath \<Rightarrow> bool" where
  "is_dir f p = (lstat f p = Some Dir)"

text \<open>
  \<^verbatim>\<open>os.path.realpath\<close>, walking the components \<open>rest\<close> from the resolved prefix
  \<open>cur\<close>. Without \<open>strict\<close> a missing component is kept and the walk goes on, as
  \<^verbatim>\<open>Path.resolve()\<close> asks for; with \<open>strict\<close> it is the walk of the kernel, where a
  missing component ends it. The first argument bounds the number of links that are
  expanded: running out of it is the symlink loop, which \<^verbatim>\<open>Path.resolve()\<close> reports as a
  \<^verbatim>\<open>RuntimeError\<close>.
\<close>

fun realpath :: "nat \<Rightarrow> bool \<Rightarrow> fs \<Rightarrow> fpath \<Rightarrow> string list \<Rightarrow> error + fpath" where
  "realpath n strict f cur [] = Inr cur"
| "realpath n strict f cur (c # rest) =
     (if strict \<and> lstat f cur \<noteq> Some Dir then
        Inl (NotADirectoryError
               (''[Errno 20] Not a directory: '' @ quoted (str (PPath True (cur @ [c])))))
      else if c = ''..'' then realpath n strict f (butlast cur) rest
      else
        (case lstat f (cur @ [c]) of
           None \<Rightarrow>
             if strict then
               Inl (FileNotFoundError
                      (''[Errno 2] No such file or directory: ''
                         @ quoted (str (PPath True (cur @ [c])))))
             else realpath n strict f (cur @ [c]) rest
         | Some (Link t) \<Rightarrow>
             (case n of
                0 \<Rightarrow>
                  if strict then
                    Inl (OSError (''[Errno 40] Too many levels of symbolic links: ''
                                    @ quoted (str (PPath True (cur @ [c])))))
                  else
                    Inl (RuntimeError
                           (''Symlink loop from '' @ quoted (str (PPath True (cur @ [c])))))
              | Suc k \<Rightarrow>
                  realpath k strict f (if is_absolute (Path t) then [] else cur)
                    (parts (Path t) @ rest))
         | Some _ \<Rightarrow> realpath n strict f (cur @ [c]) rest))"

subsection \<open>The durable record\<close>

text \<open>
  What \<^verbatim>\<open>json.loads\<close> returns. A \<open>JObj\<close> holds the items of a Python \<^verbatim>\<open>dict\<close>, so its
  keys are distinct. Floating-point numbers are left out.
\<close>

datatype json =
    JNull
  | JBool bool
  | JInt int
  | JStr string
  | JArr "json list"
  | JObj "(string \<times> json) list"

text \<open>
  The bytes of a file of the configuration directory, by what \<^verbatim>\<open>read_text\<close> and
  \<^verbatim>\<open>json.loads\<close> make of them: bytes that are not UTF-8, a text that is not a JSON
  document (the empty text and every cut-off document among them), or the text of the
  document \<open>d\<close>, which is what \<^verbatim>\<open>json.dumps d\<close> writes.
\<close>

datatype content = Undecodable | NotJson | JsonDoc json

text \<open>
  The world of one process: the file tree, the files of the per-user configuration
  directory by name, the working directory and the home directory as the system reports
  them, the environment, and the bound on link expansion. The configuration directory is
  a store of its own, apart from the tree that the commands are pointed at.
\<close>

record world =
  tree :: fs
  conf :: "string \<rightharpoonup> content"
  pwd :: string
  home :: string
  environ :: "string \<rightharpoonup> string"
  max_links :: nat

text \<open>\<^verbatim>\<open>Path.resolve()\<close>: a relative path is resolved from the working directory.\<close>

definition resolve :: "world \<Rightarrow> ppath \<Rightarrow> error + fpath" where
  "resolve w p =
     realpath (max_links w) False (tree w)
       (if is_absolute p then [] else parts (Path (pwd w))) (parts p)"

record State =
  last_spot :: json

definition asdict :: "State \<Rightarrow> json" where
  "asdict s = JObj [(''last_spot'', last_spot s)]"

text \<open>\<^verbatim>\<open>State(**data)\<close>: the keywords must be exactly the one field.\<close>

fun State_kw :: "json \<Rightarrow> error + State" where
  "State_kw (JObj [(k, v)]) =
     (if k = ''last_spot'' then Inr \<lparr>last_spot = v\<rparr>
      else Inl (TypeError (''State.__init__() got an unexpected keyword argument '' @ quoted k)))"
| "State_kw (JObj []) =
     Inl (TypeError (''State.__init__() missing 1 required positional argument: ''
                       @ quoted ''last_spot''))"
| "State_kw (JObj (x # y # ys)) =
     Inl (TypeError ''State.__init__() got an unexpected keyword argument'')"
| "State_kw _ = Inl (TypeError ''argument after ** must be a mapping'')"

text \<open>\<^verbatim>\<open>PurePath.with_suffix\<close> on a file name: the part from the last dot on is replaced.\<close>

fun stem :: "string \<Rightarrow> string" where
  "stem [] = []"
| "stem (c # cs) = (if CHR ''.'' \<in> set cs then c # stem cs else [])"

definition with_suffix :: "string \<Rightarrow> string \<Rightarrow> string" where
  "with_suffix name ext =
     (if CHR ''.'' \<in> set (tl name) \<and> last name \<noteq> CHR ''.'' then stem name @ ext
      else name @ ext)"

definition Storage_path :: string where
  "Storage_path = ''spot.json''"

definition default_State :: "world \<Rightarrow> State" where
  "default_State w = \<lparr>last_spot = JStr (str (Path (pwd w)))\<rparr>"

definition Storage_read :: "world \<Rightarrow> error + State" where
  "Storage_read w =
     (case conf w Storage_path of
        None \<Rightarrow> Inr (default_State w)
      | Some Undecodable \<Rightarrow> Inl UnicodeDecodeError
      | Some NotJson \<Rightarrow> Inr (default_State w)
      | Some (JsonDoc data) \<Rightarrow> State_kw data)"

text \<open>
  \<^verbatim>\<open>Storage.write\<close> in its three steps on the configuration directory: the temporary
  file is opened for writing, which empties it; the document is written to it; the
  temporary file is renamed over the record.
\<close>

definition open_tmp :: "(string \<rightharpoonup> content) \<Rightarrow> (string \<rightharpoonup> content)" where
  "open_tmp c = c(with_suffix Storage_path ''.tmp'' \<mapsto> NotJson)"

definition fill_tmp :: "State \<Rightarrow> (string \<rightharpoonup> content) \<Rightarrow> (string \<rightharpoonup> content)" where
  "fill_tmp s c = c(with_suffix Storage_path ''.tmp'' \<mapsto> JsonDoc (asdict s))"

definition replace_tmp :: "(string \<rightharpoonup> content) \<Rightarrow> (string \<rightharpoonup> content)" where
  "replace_tmp c =
     (c(Storage_path := c (with_suffix Storage_path ''.tmp'')))
       (with_suffix Storage_path ''.tmp'' := None)"

definition write_steps :: "State \<Rightarrow> (string \<rightharpoonup> content) \<Rightarrow> (string \<rightharpoonup> content) list" where
  "write_steps s c =
     [c, open_tmp c, fill_tmp s (open_tmp c), replace_tmp (fill_tmp s (open_tmp c))]"

definition Storage_write :: "State \<Rightarrow> world \<Rightarrow> world" where
  "Storage_write s w = w\<lparr>conf := replace_tmp (fill_tmp s (open_tmp (conf w)))\<rparr>"

subsection \<open>The file manager\<close>

record manager =
  state :: State
  cwd :: ppath

text \<open>\<^verbatim>\<open>FileManager.__init__\<close>; \<^verbatim>\<open>Path(x)\<close> raises on anything but a string.\<close>

definition FileManager :: "world \<Rightarrow> error + manager" where
  "FileManager w =
     (case Storage_read w of
        Inl e \<Rightarrow> Inl e
      | Inr st \<Rightarrow>
          (case last_spot st of
             JStr s \<Rightarrow> Inr \<lparr>state = st, cwd = Path s\<rparr>
           | _ \<Rightarrow> Inl (TypeError ''expected str, bytes or os.PathLike object'')))"

definition persist :: "manager \<Rightarrow> world \<Rightarrow> world" where
  "persist m w = Storage_write \<lparr>last_spot = JStr (str (cwd m))\<rparr> w"

text \<open>\<^verbatim>\<open>Path(path) if path else Path.home()\<close>: no argument and the empty string go home.\<close>

definition arg_or_home :: "world \<Rightarrow> string option \<Rightarrow> ppath" where
  "arg_or_home w path =
     (case path of None \<Rightarrow> Path (home w) | Some s \<Rightarrow> if s = [] then Path (home w) else Path s)"

definition hop :: "string option \<Rightarrow> manager \<Rightarrow> world \<Rightarrow> (error + string) \<times> manager \<times> world" where
  "hop path m w =
     (let new = arg_or_home w path
      in case resolve w (if \<not> is_absolute new then pjoin (cwd m) new else new) of
           Inl e \<Rightarrow> (Inl e, m, w)
         | Inr target \<Rightarrow>
             if \<not> exists (tree w) target then
               (Inl (FileNotFoundError (''path does not exist: '' @ str (PPath True target))), m, w)
             else if \<not> is_dir (tree w) target then
               (Inl (NotADirectoryError (''not a directory: '' @ str (PPath True target))), m, w)
             else
               (let m' = m\<lparr>cwd := PPath True target\<rparr>
                in (Inr (str (cwd m')), m', persist m' w)))"

definition spot :: "manager \<Rightarrow> world \<Rightarrow> (error + string) \<times> manager \<times> world" where
  "spot m w = (Inr (str (cwd m)), m, w)"

subsection \<open>System calls\<close>

text \<open>
  The calls that \<^verbatim>\<open>pathlib\<close> and \<^verbatim>\<open>shutil\<close> make on a resolved path. A call fails with
  \<^verbatim>\<open>ENOENT\<close> or \<^verbatim>\<open>ENOTDIR\<close> by the first name on the way that is not a directory.
\<close>

definition os_msg :: "string \<Rightarrow> fpath \<Rightarrow> string" where
  "os_msg e p = e @ '': '' @ quoted (str (PPath True p))"

definition proper_prefixes :: "fpath \<Rightarrow> fpath list" where
  "proper_prefixes t = butlast (prefixes t)"

definition parent_error :: "fs \<Rightarrow> fpath \<Rightarrow> error option" where
  "parent_error f t =
     (case find (\<lambda>q. lstat f q \<noteq> Some Dir) (proper_prefixes t) of
        None \<Rightarrow> None
      | Some q \<Rightarrow>
          Some (if lstat f q = None
                then FileNotFoundError (os_msg ''[Errno 2] No such file or directory'' t)
                else NotADirectoryError (os_msg ''[Errno 20] Not a directory'' t)))"

definition os_mkdir :: "fpath \<Rightarrow> fs \<Rightarrow> error + fs" where
  "os_mkdir t f =
     (case parent_error f t of
        Some e \<Rightarrow> Inl e
      | None \<Rightarrow>
          if exists f t then Inl (FileExistsError (os_msg ''[Errno 17] File exists'' t))
          else Inr (f @ [(t, Dir)]))"

text \<open>
  \<^verbatim>\<open>Path.mkdir(parents=True, exist_ok=True)\<close>: \<^verbatim>\<open>os.mkdir\<close> is tried first; on
  \<^verbatim>\<open>FileNotFoundError\<close> the parent is made the same way and \<^verbatim>\<open>os.mkdir\<close> is tried
  again; any other error is let through unless the path is a directory.
\<close>

function mkdir_parents :: "fpath \<Rightarrow> fs \<Rightarrow> error + fs" where
  "mkdir_parents t f =
     (case os_mkdir t f of
        Inr f' \<Rightarrow> Inr f'
      | Inl (FileNotFoundError x) \<Rightarrow>
          if t = [] then Inl (FileNotFoundError x)
          else
            (case mkdir_parents (butlast t) f of
               Inl e \<Rightarrow> Inl e
             | Inr f' \<Rightarrow>
                 (case os_mkdir t f' of
                    Inr f'' \<Rightarrow> Inr f''
                  | Inl (FileNotFoundError y) \<Rightarrow> Inl (FileNotFoundError y)
                  | Inl e \<Rightarrow> if is_dir f' t then Inr f' else Inl e))
      | Inl e \<Rightarrow> if is_dir f t then Inr f else Inl e)"
  by pat_completeness auto
termination
  by (relation "measure (\<lambda>(t, f). length t)") auto

declare mkdir_parents.simps [simp del]

text \<open>
  \<^verbatim>\<open>Path.touch(exist_ok=True)\<close>: \<^verbatim>\<open>os.utime\<close> on what exists (the model has no
  timestamps, so nothing changes), else the file is created empty.
\<close>

definition touch :: "fpath \<Rightarrow> fs \<Rightarrow> error + fs" where
  "touch t f =
     (if exists f t then Inr f
      else (case parent_error f t of
              Some e \<Rightarrow> Inl e
            | None \<Rightarrow> Inr (f @ [(t, File [])])))"

text \<open>\<^verbatim>\<open>Path.unlink(missing_ok=False)\<close>.\<close>

definition unlink :: "fpath \<Rightarrow> fs \<Rightarrow> error + fs" where
  "unlink t f =
     (case parent_error f t of
        Some e \<Rightarrow> Inl e
      | None \<Rightarrow>
          (case lstat f t of
             None \<Rightarrow> Inl (FileNotFoundError (os_msg ''[Errno 2] No such file or directory'' t))
           | Some Dir \<Rightarrow> Inl (IsADirectoryError (os_msg ''[Errno 21] Is a directory'' t))
           | Some _ \<Rightarrow> Inr (filter (\<lambda>(q, n). q \<noteq> t) f)))"

text \<open>
  \<^verbatim>\<open>shutil.rmtree\<close> on a directory: the entries below it go, links among them as links,
  then the directory itself. The root cannot be removed: its entries are gone when
  \<^verbatim>\<open>rmdir\<close> fails on it.
\<close>

definition rmtree :: "fpath \<Rightarrow> fs \<Rightarrow> error option \<times> fs" where
  "rmtree t f =
     (if t = [] then (Some (OSError (os_msg ''[Errno 16] Device or resource busy'' t)), [])
      else (None, filter (\<lambda>(q, n). \<not> prefix t q) f))"

text \<open>
  Calls on a path as it stands (not resolved by the program): the kernel walks it,
  following every link.
\<close>

definition kwalk :: "world \<Rightarrow> ppath \<Rightarrow> error + fpath" where
  "kwalk w p =
     realpath (max_links w) True (tree w)
       (if is_absolute p then [] else parts (Path (pwd w))) (parts p)"

definition stat :: "world \<Rightarrow> ppath \<Rightarrow> error + node" where
  "stat w p =
     (case kwalk w p of
        Inl e \<Rightarrow> Inl e
      | Inr q \<Rightarrow>
          (case lstat (tree w) q of
             None \<Rightarrow>
               Inl (FileNotFoundError (''[Errno 2] No such file or directory: '' @ quoted (str p)))
           | Some n \<Rightarrow> Inr n))"

definition Path_is_dir :: "world \<Rightarrow> ppath \<Rightarrow> bool" where
  "Path_is_dir w p = (stat w p = Inr Dir)"

definition iterdir :: "world \<Rightarrow> ppath \<Rightarrow> error + string list" where
  "iterdir w p =
     (case stat w p of
        Inl e \<Rightarrow> Inl e
      | Inr Dir \<Rightarrow>
          (case kwalk w p of
             Inl e \<Rightarrow> Inl e
           | Inr q \<Rightarrow>
               Inr (map (\<lambda>(r, n). last r)
                      (filter (\<lambda>(r, n). r \<noteq> [] \<and> butlast r = q) (tree w))))
      | Inr _ \<Rightarrow> Inl (NotADirectoryError (''[Errno 20] Not a directory: '' @ quoted (str p))))"

subsection \<open>The other operations of the file manager\<close>

text \<open>
  \<^verbatim>\<open>shutil.copytree\<close>, \<^verbatim>\<open>shutil.copy2\<close>, \<^verbatim>\<open>shutil.move\<close> and \<^verbatim>\<open>os.rename\<close> are taken
  as they come: functions of the working directory, the tree and the two paths that
  return the tree they leave and the exception they raise, if any.
\<close>

record shutil =
  copytree :: "string \<Rightarrow> fs \<Rightarrow> ppath \<Rightarrow> ppath \<Rightarrow> error option \<times> fs"
  copy2 :: "string \<Rightarrow> fs \<Rightarrow> ppath \<Rightarrow> ppath \<Rightarrow> error option \<times> fs"
  move_str :: "string \<Rightarrow> fs \<Rightarrow> string \<Rightarrow> string \<Rightarrow> error option \<times> fs"
  os_rename :: "string \<Rightarrow> fs \<Rightarrow> ppath \<Rightarrow> ppath \<Rightarrow> error option \<times> fs"

definition raised :: "error option \<Rightarrow> error + unit" where
  "raised e = (case e of None \<Rightarrow> Inr () | Some x \<Rightarrow> Inl x)"

definition list_names :: "manager \<Rightarrow> world \<Rightarrow> (error + string list) \<times> manager \<times> world" where
  "list_names m w = (iterdir w (cwd m), m, w)"

definition copy ::
  "shutil \<Rightarrow> string \<Rightarrow> string \<Rightarrow> manager \<Rightarrow> world \<Rightarrow> (error + unit) \<times> manager \<times> world" where
  "copy sh src dst m w =
     (let s = pjoin (cwd m) (Path src); d = pjoin (cwd m) (Path dst);
          r = (if Path_is_dir w s then copytree sh (pwd w) (tree w) s d
               else copy2 sh (pwd w) (tree w) s d)
      in (raised (fst r), m, w\<lparr>tree := snd r\<rparr>))"

definition move ::
  "shutil \<Rightarrow> string \<Rightarrow> string \<Rightarrow> manager \<Rightarrow> world \<Rightarrow> (error + unit) \<times> manager \<times> world" where
  "move sh src dst m w =
     (let r = move_str sh (pwd w) (tree w) (str (pjoin (cwd m) (Path src)))
                (str (pjoin (cwd m) (Path dst)))
      in (raised (fst r), m, w\<lparr>tree := snd r\<rparr>))"

definition delete :: "string \<Rightarrow> manager \<Rightarrow> world \<Rightarrow> (error + unit) \<times> manager \<times> world" where
  "delete path m w =
     (case resolve w (pjoin (cwd m) (Path path)) of
        Inl e \<Rightarrow> (Inl e, m, w)
      | Inr target \<Rightarrow>
          if is_dir (tree w) target then
            (let r = rmtree target (tree w) in (raised (fst r), m, w\<lparr>tree := snd r\<rparr>))
          else
            (case unlink target (tree w) of
               Inl e \<Rightarrow> (Inl e, m, w)
             | Inr f' \<Rightarrow> (Inr (), m, w\<lparr>tree := f'\<rparr>)))"

definition rename ::
  "shutil \<Rightarrow> string \<Rightarrow> string \<Rightarrow> manager \<Rightarrow> world \<Rightarrow> (error + unit) \<times> manager \<times> world" where
  "rename sh src dst m w =
     (let r = os_rename sh (pwd w) (tree w) (pjoin (cwd m) (Path src)) (pjoin (cwd m) (Path dst))
      in (raised (fst r), m, w\<lparr>tree := snd r\<rparr>))"

definition dig :: "string \<Rightarrow> manager \<Rightarrow> world \<Rightarrow> (error + string) \<times> manager \<times> world" where
  "dig path m w =
     (case resolve w (pjoin (cwd m) (Path path)) of
        Inl e \<Rightarrow> (Inl e, m, w)
      | Inr target \<Rightarrow>
          (case mkdir_parents target (tree w) of
             Inl e \<Rightarrow> (Inl e, m, w)
           | Inr f' \<Rightarrow> (Inr (str (PPath True target)), m, w\<lparr>tree := f'\<rparr>)))"

text \<open>The parent of the root is the root, as \<open>butlast\<close> has it.\<close>

definition carrot :: "string \<Rightarrow> manager \<Rightarrow> world \<Rightarrow> (error + string) \<times> manager \<times> world" where
  "carrot path m w =
     (case resolve w (pjoin (cwd m) (Path path)) of
        Inl e \<Rightarrow> (Inl e, m, w)
      | Inr target \<Rightarrow>
          (case mkdir_parents (butlast target) (tree w) of
             Inl e \<Rightarrow> (Inl e, m, w)
           | Inr f' \<Rightarrow>
               (case touch target f' of
                  Inl e \<Rightarrow> (Inl e, m, w\<lparr>tree := f'\<rparr>)
                | Inr f'' \<Rightarrow> (Inr (str (PPath True target)), m, w\<lparr>tree := f''\<rparr>))))"

subsection \<open>Logging\<close>

text \<open>
  The root logger's level is a number; a record is written to the error stream when its
  own level is not below it. \<open>level_named\<close> is \<^verbatim>\<open>getattr(logging, name)\<close> on the level
  names of the \<^verbatim>\<open>logging\<close> module.
\<close>

datatype err = Write string | Log string string | Traceback error

definition level_named :: "string \<Rightarrow> nat option" where
  "level_named name =
     map_of [(''CRITICAL'', 50), (''FATAL'', 50), (''ERROR'', 40), (''WARNING'', 30),
             (''WARN'', 30), (''INFO'', 20), (''DEBUG'', 10), (''NOTSET'', 0)] name"

definition upper :: "string \<Rightarrow> string" where
  "upper s = map (\<lambda>c. if CHR ''a'' \<le> c \<and> c \<le> CHR ''z'' then char_of (of_char c - (32::nat)) else c) s"

definition lower :: "string \<Rightarrow> string" where
  "lower s = map (\<lambda>c. if CHR ''A'' \<le> c \<and> c \<le> CHR ''Z'' then char_of (of_char c + (32::nat)) else c) s"

text \<open>The level that \<^verbatim>\<open>utils.py\<close> configures when it is imported.\<close>

definition import_level :: "(string \<rightharpoonup> string) \<Rightarrow> nat" where
  "import_level env =
     (case env ''FILEBUNNY_LOG_LEVEL'' of
        Some name \<Rightarrow>
          if name \<noteq> [] then (case level_named (upper name) of Some l \<Rightarrow> l | None \<Rightarrow> 20)
          else if env ''FILEBUNNY_VERBOSE'' = Some ''1'' then 20 else 30
      | None \<Rightarrow> if env ''FILEBUNNY_VERBOSE'' = Some ''1'' then 20 else 30)"

text \<open>
  What \<^verbatim>\<open>log_errors\<close>, \<^verbatim>\<open>log_call\<close> and \<^verbatim>\<open>log_timing\<close> around the method \<open>name\<close>
  write at level \<open>lvl\<close> when the method ends with \<open>r\<close>; they hand \<open>r\<close> on as it is. The
  time stamps, the arguments and the elapsed time are left out of the records.
\<close>

definition log_records :: "nat \<Rightarrow> string \<Rightarrow> error + 'a \<Rightarrow> err list" where
  "log_records lvl name r =
     (if lvl \<le> 20 then [Log ''INFO'' (''CALL '' @ name), Log ''INFO'' (''TIME '' @ name)] else [])
     @ (case r of
          Inl e \<Rightarrow> if lvl \<le> 40 then [Log ''ERROR'' (''ERROR in '' @ name @ '': '' @ message e)] else []
        | Inr v \<Rightarrow> [])"

subsection \<open>The command line\<close>

text \<open>
  What \<^verbatim>\<open>parser.parse_args()\<close> hands back: the namespace, with the subcommand and its
  arguments in one value, or the exit that \<^verbatim>\<open>argparse\<close> takes itself (help, version,
  usage error) with what it printed.
\<close>

datatype command =
    Spot
  | Hop "string option"
  | Peek bool
  | Copy string string
  | Move string string
  | Bury string
  | Rename string string
  | Dig string
  | Carrot string

datatype out = Print string | Row string string string

record namespace =
  cmd :: "command option"
  verbose :: bool

datatype parsed = Namespace namespace | ArgparseExit int "out list" "err list"

text \<open>
  The interactive shell that is started: PowerShell with the helper functions for the
  spot (and whether verbose logging is exported), the user's bash with the generated
  rc file, or any other shell as it is; the last argument of the latter two is the
  directory the shell starts in.
\<close>

datatype launch = PowerShell string bool | Bash string string bool | Shell string string

text \<open>
  The platform of the process: the parser of the standard library, the version of the
  package, the system's name, what running a shell does to the world and whether it
  raises, and the part of the banner above its text (the drawing).
\<close>

record host =
  lib :: shutil
  parse_args :: "string list \<Rightarrow> parsed"
  FB_VERSION :: string
  pkg_version :: "string option"
  platform_system :: string
  subprocess_run :: "launch \<Rightarrow> world \<Rightarrow> error option \<times> world"
  HEADER_ART :: string

record result =
  status :: int
  stdout :: "out list"
  stderr :: "err list"
  launched :: "launch list"
  final :: world

definition nl :: char where
  "nl = CHR 0x0A"

definition HEADER_TEXT :: string where
  "HEADER_TEXT = join_on nl
     [''Core Commands'',
      ''-------------'',
      ''- spot                Show your current spot (absolute path).'',
      ''- hop [path]          Hop to a directory (updates the bunny spot). Prints the resolved path.'',
      ''- peek [-al]          List contents (PowerShell-style). Use -al to include dotfiles.'',
      ''- dig <dir>           Dig a new burrow (mkdir -p).'',
      ''- carrot <file>       Plant a carrot (create/touch a file; parents auto-created).'',
      ''- copy <src> <dst>    Copy file/folder.'',
      ''- move <src> <dst>    Move file/folder.'',
      ''- rename <src> <dst>  Rename file/folder.'',
      ''- bury <path>         Bury (delete) file/folder.'',
      [],
      ''Tips'',
      ''----'',
      ''- Help: filebunny -h  |  filebunny <command> -h'',
      []]"

definition version_of :: "host \<Rightarrow> string" where
  "version_of h =
     (if FB_VERSION h \<noteq> [] then FB_VERSION h
      else (case pkg_version h of Some v \<Rightarrow> v | None \<Rightarrow> ''unknown''))"

definition banner :: "host \<Rightarrow> string" where
  "banner h = HEADER_ART h @ ''filebunny '' @ version_of h @ [nl, nl] @ HEADER_TEXT"

definition notice :: string where
  "notice = ''Already inside a filebunny burrow. Use 'leave' to exit.''"

definition top_level_help :: "string list \<Rightarrow> bool" where
  "top_level_help argv = (''-h'' \<in> set argv \<or> ''--help'' \<in> set argv)"

definition verbose_requested :: "string list \<Rightarrow> bool" where
  "verbose_requested argv = (''-V'' \<in> set argv \<or> ''--verbose'' \<in> set argv)"

definition subcommands :: "string list" where
  "subcommands =
     [''spot'', ''hop'', ''peek'', ''copy'', ''move'', ''bury'', ''rename'', ''dig'', ''carrot'']"

definition mentions_sub :: "string list \<Rightarrow> bool" where
  "mentions_sub argv = list_ex (\<lambda>token. token \<in> set subcommands) argv"

text \<open>An exception that nothing catches: the interpreter prints the traceback and exits 1.\<close>

definition uncaught :: "err list \<Rightarrow> error \<Rightarrow> world \<Rightarrow> result" where
  "uncaught logs e w =
     \<lparr>status = 1, stdout = [], stderr = logs @ [Traceback e], launched = [], final = w\<rparr>"

definition succeeded :: "out list \<Rightarrow> err list \<Rightarrow> world \<Rightarrow> result" where
  "succeeded outs logs w = \<lparr>status = 0, stdout = outs, stderr = logs, launched = [], final = w\<rparr>"

text \<open>\<^verbatim>\<open>sys.stderr.write(f"{name} error: {e}\n"); raise SystemExit(1)\<close>.\<close>

definition failed :: "string \<Rightarrow> err list \<Rightarrow> error \<Rightarrow> world \<Rightarrow> result" where
  "failed name logs e w =
     \<lparr>status = 1, stdout = [],
      stderr = logs @ [Write (name @ '' error: '' @ message e @ [nl])],
      launched = [], final = w\<rparr>"

fun show_nat :: "nat \<Rightarrow> string" where
  "show_nat n =
     (if n < 10 then [char_of (48 + n)] else show_nat (n div 10) @ [char_of (48 + n mod 10)])"

declare show_nat.simps [simp del]

text \<open>
  One line of \<^verbatim>\<open>peek\<close> for the child \<open>name\<close> of \<open>root\<close>: the row, or the complaint when
  \<^verbatim>\<open>stat\<close> fails. The column of the last write is left out of the row.
\<close>

definition peek_row :: "world \<Rightarrow> ppath \<Rightarrow> string \<Rightarrow> out list \<times> err list" where
  "peek_row w root name =
     (let p = PPath (is_absolute root) (parts root @ [name])
      in case stat w p of
           Inl e \<Rightarrow> ([], [Write (''peek error: '' @ name @ '': '' @ message e @ [nl])])
         | Inr Dir \<Rightarrow> ([Row ''d-----'' [] name], [])
         | Inr (File text) \<Rightarrow> ([Row ''-a----'' (show_nat (length text)) name], [])
         | Inr (Link t) \<Rightarrow> ([Row ''-a----'' (show_nat (length t)) name], []))"

definition peek_key :: "world \<Rightarrow> ppath \<Rightarrow> string \<Rightarrow> nat \<times> string" where
  "peek_key w root name =
     (if Path_is_dir w (PPath (is_absolute root) (parts root @ [name])) then 0 else 1, lower name)"

definition peek :: "nat \<Rightarrow> bool \<Rightarrow> manager \<Rightarrow> world \<Rightarrow> result" where
  "peek lvl all m w =
     (let logs = log_records lvl ''spot'' (fst (spot m w));
          root = Path (str (cwd m))
      in case iterdir w root of
           Inl e \<Rightarrow> uncaught logs e w
         | Inr names \<Rightarrow>
             (let sorted = sort_key (peek_key w root) names;
                  paths = (if \<not> all then filter (\<lambda>name. take 1 name \<noteq> ''.'') sorted else sorted);
                  rows = map (peek_row w root) paths
              in succeeded
                   ([Print [], Print [], Print (''Dig: '' @ str root), Print [],
                     Print ''Mode    LastWriteTime               Length Name'',
                     Print ''----    -------------               ------ ----'']
                    @ concat (map fst rows) @ [Print [], Print []])
                   (logs @ concat (map snd rows)) w))"

text \<open>The \<^verbatim>\<open>match\<close> statement of \<^verbatim>\<open>main\<close>, at the logging level \<open>lvl\<close>.\<close>

fun run :: "host \<Rightarrow> nat \<Rightarrow> command \<Rightarrow> manager \<Rightarrow> world \<Rightarrow> result" where
  "run h lvl Spot m w =
     (case spot m w of
        (Inl e, m', w') \<Rightarrow> failed ''spot'' (log_records lvl ''spot'' (Inl e :: error + string)) e w'
      | (Inr s, m', w') \<Rightarrow> succeeded [Print s] (log_records lvl ''spot'' (Inr s :: error + string)) w')"
| "run h lvl (Hop path) m w =
     (case hop path m w of
        (Inl e, m', w') \<Rightarrow> failed ''hop'' (log_records lvl ''hop'' (Inl e :: error + string)) e w'
      | (Inr s, m', w') \<Rightarrow> succeeded [Print s] (log_records lvl ''hop'' (Inr s :: error + string)) w')"
| "run h lvl (Peek all) m w = peek lvl all m w"
| "run h lvl (Copy src dst) m w =
     (case copy (lib h) src dst m w of
        (Inl e, m', w') \<Rightarrow> uncaught (log_records lvl ''copy'' (Inl e :: error + unit)) e w'
      | (Inr u, m', w') \<Rightarrow>
          succeeded [Print (''Copied '' @ src @ '' to '' @ dst)] (log_records lvl ''copy'' (Inr u :: error + unit)) w')"
| "run h lvl (Move src dst) m w =
     (case move (lib h) src dst m w of
        (Inl e, m', w') \<Rightarrow> uncaught (log_records lvl ''move'' (Inl e :: error + unit)) e w'
      | (Inr u, m', w') \<Rightarrow>
          succeeded [Print (''Moved '' @ src @ '' to '' @ dst)] (log_records lvl ''move'' (Inr u :: error + unit)) w')"
| "run h lvl (Bury path) m w =
     (case delete path m w of
        (Inl e, m', w') \<Rightarrow> uncaught (log_records lvl ''delete'' (Inl e :: error + unit)) e w'
      | (Inr u, m', w') \<Rightarrow>
          succeeded [Print (''Buried '' @ path)] (log_records lvl ''delete'' (Inr u :: error + unit)) w')"
| "run h lvl (Rename src dst) m w =
     (case rename (lib h) src dst m w of
        (Inl e, m', w') \<Rightarrow> uncaught (log_records lvl ''rename'' (Inl e :: error + unit)) e w'
      | (Inr u, m', w') \<Rightarrow>
          succeeded [Print (''Renamed '' @ src @ '' to '' @ dst)] (log_records lvl ''rename'' (Inr u :: error + unit)) w')"
| "run h lvl (Dig path) m w =
     (case dig path m w of
        (Inl e, m', w') \<Rightarrow> failed ''dig'' (log_records 30 ''dig'' (Inl e :: error + string)) e w'
      | (Inr s, m', w') \<Rightarrow> succeeded [Print s] (log_records 30 ''dig'' (Inr s :: error + string)) w')"
| "run h lvl (Carrot path) m w =
     (case carrot path m w of
        (Inl e, m', w') \<Rightarrow> failed ''carrot'' (log_records 30 ''carrot'' (Inl e :: error + string)) e w'
      | (Inr s, m', w') \<Rightarrow> succeeded [Print s] (log_records 30 ''carrot'' (Inr s :: error + string)) w')"

text \<open>Entering the burrow: the branch of \<^verbatim>\<open>main\<close> that starts the interactive shell.\<close>

definition shell_of :: "world \<Rightarrow> string" where
  "shell_of w =
     (case environ w ''SHELL'' of None \<Rightarrow> ''/bin/sh'' | Some s \<Rightarrow> if s = [] then ''/bin/sh'' else s)"

definition burrow :: "host \<Rightarrow> bool \<Rightarrow> nat \<Rightarrow> world \<Rightarrow> result" where
  "burrow h vb lvl w =
     (case FileManager w of
        Inl e \<Rightarrow> uncaught [] e w
      | Inr fm \<Rightarrow>
          (let dest = str (cwd fm);
               logs = log_records lvl ''spot'' (fst (spot fm w));
               shell = shell_of w;
               l = (if platform_system h = ''Windows'' then PowerShell dest vb
                    else if suffix ''bash'' shell then Bash shell dest vb
                    else Shell shell dest);
               r = subprocess_run h l w
            in case fst r of
                 None \<Rightarrow> \<lparr>status = 0, stdout = [], stderr = logs, launched = [l], final = snd r\<rparr>
               | Some e \<Rightarrow>
                   \<lparr>status = 1, stdout = [],
                    stderr = logs @ [Write (''burrow error: '' @ message e @ [nl])],
                    launched = [l], final = snd r\<rparr>))"

definition main :: "host \<Rightarrow> string list \<Rightarrow> world \<Rightarrow> result" where
  "main h argv w =
     (if top_level_help argv \<and> \<not> mentions_sub argv then succeeded [Print (banner h)] [] w
      else
        (case parse_args h argv of
           ArgparseExit code outs errs \<Rightarrow>
             \<lparr>status = code, stdout = outs, stderr = errs, launched = [], final = w\<rparr>
         | Namespace args \<Rightarrow>
             (let vb = (verbose args \<or> verbose_requested argv);
                  lvl = import_level (environ w)
              in case cmd args of
                   None \<Rightarrow>
                     if environ w ''FILEBUNNY_BURROW'' = Some ''1''
                     then succeeded [Print notice] [] w
                     else burrow h vb lvl w
                 | Some c \<Rightarrow>
                     (case FileManager w of
                        Inl e \<Rightarrow> uncaught [] e w
                      | Inr fm \<Rightarrow>
                          run h (if vb then 20 else lvl) c (fm\<lparr>cwd := Path (pwd w)\<rparr>) w))))"

subsection \<open>A sample platform\<close>

text \<open>
  A small disk and a plain platform to run the definitions on: the parser knows the
  bare forms of the command line, the library calls copy and move entries whose paths
  need no resolving.
\<close>

definition sample_tree :: fs where
  "sample_tree =
     [([''home''], Dir),
      ([''home'', ''u''], Dir),
      ([''home'', ''u'', ''work''], Dir),
      ([''home'', ''u'', ''work'', ''todo''], File ''milk''),
      ([''home'', ''u'', ''notes''], File ''abc''),
      ([''home'', ''u'', ''w''], Link ''work''),
      ([''home'', ''u'', ''gone''], Link ''nowhere''),
      ([''home'', ''u'', ''bad''], Link ''notes/x'')]"

definition sample_world :: world where
  "sample_world =
     \<lparr>tree = sample_tree, conf = Map.empty, pwd = ''/home/u'', home = ''/home/u'',
      environ = Map.empty, max_links = 40\<rparr>"

definition sample_manager :: manager where
  "sample_manager = \<lparr>state = \<lparr>last_spot = JStr ''/home/u''\<rparr>, cwd = PPath True [''home'', ''u'']\<rparr>"

definition plain :: "string \<Rightarrow> ppath \<Rightarrow> fpath" where
  "plain wd p = (if is_absolute p then parts p else parts (Path wd) @ parts p)"

definition sample_copy :: "string \<Rightarrow> fs \<Rightarrow> ppath \<Rightarrow> ppath \<Rightarrow> error option \<times> fs" where
  "sample_copy wd f s d =
     (if lstat f (plain wd s) = None
      then (Some (FileNotFoundError (''[Errno 2] No such file or directory: '' @ quoted (str s))), f)
      else (None, f @ map (\<lambda>(q, n). (plain wd d @ drop (length (plain wd s)) q, n))
                        (filter (\<lambda>(q, n). prefix (plain wd s) q) f)))"

definition sample_rename :: "string \<Rightarrow> fs \<Rightarrow> ppath \<Rightarrow> ppath \<Rightarrow> error option \<times> fs" where
  "sample_rename wd f s d =
     (if lstat f (plain wd s) = None
      then (Some (FileNotFoundError (''[Errno 2] No such file or directory: '' @ quoted (str s))), f)
      else (None, map (\<lambda>(q, n). if prefix (plain wd s) q
                                 then (plain wd d @ drop (length (plain wd s)) q, n) else (q, n)) f))"

definition sample_shutil :: shutil where
  "sample_shutil =
     \<lparr>copytree = sample_copy, copy2 = sample_copy,
      move_str = (\<lambda>wd f s d. sample_rename wd f (Path s) (Path d)),
      os_rename = sample_rename\<rparr>"

definition usage_error :: parsed where
  "usage_error = ArgparseExit 2 [] [Write ''usage: filebunny [-h] [-v] [-V] ...'']"

definition sample_parse :: "string list \<Rightarrow> parsed" where
  "sample_parse argv =
     (case argv of
        [] \<Rightarrow> Namespace \<lparr>cmd = None, verbose = False\<rparr>
      | c # rest \<Rightarrow>
          if c = ''-V'' \<and> rest = [] then Namespace \<lparr>cmd = None, verbose = True\<rparr>
          else if c = ''-v'' \<and> rest = [] then ArgparseExit 0 [Print ''filebunny 1.0''] []
          else if c = ''spot'' \<and> rest = [] then Namespace \<lparr>cmd = Some Spot, verbose = False\<rparr>
          else if c = ''hop'' \<and> rest = [] then Namespace \<lparr>cmd = Some (Hop None), verbose = False\<rparr>
          else if c = ''peek'' \<and> rest = [] then Namespace \<lparr>cmd = Some (Peek False), verbose = False\<rparr>
          else
            (case rest of
               [a] \<Rightarrow>
                 if c = ''hop'' then Namespace \<lparr>cmd = Some (Hop (Some a)), verbose = False\<rparr>
                 else if c = ''peek'' \<and> (a = ''-al'' \<or> a = ''--all'')
                   then Namespace \<lparr>cmd = Some (Peek True), verbose = False\<rparr>
                 else if c = ''bury'' then Namespace \<lparr>cmd = Some (Bury a), verbose = False\<rparr>
                 else if c = ''dig'' then Namespace \<lparr>cmd = Some (Dig a), verbose = False\<rparr>
                 else if c = ''carrot'' then Namespace \<lparr>cmd = Some (Carrot a), verbose = False\<rparr>
                 else usage_error
             | [a, b] \<Rightarrow>
                 if c = ''copy'' then Namespace \<lparr>cmd = Some (Copy a b), verbose = False\<rparr>
                 else if c = ''move'' then Namespace \<lparr>cmd = Some (Move a b), verbose = False\<rparr>
                 else if c = ''rename'' then Namespace \<lparr>cmd = Some (Rename a b), verbose = False\<rparr>
                 else usage_error
             | _ \<Rightarrow> usage_error))"

definition sample_host :: host where
  "sample_host =
     \<lparr>lib = sample_shutil, parse_args = sample_parse, FB_VERSION = ''1.0'', pkg_version = None,
      platform_system = ''Linux'', subprocess_run = (\<lambda>l w. (None, w)), HEADER_ART = []\<rparr>"

text \<open>
  The world in which the record holds the spot \<open>s\<close> (the store has written it), and the
  sample world inside a burrow.
\<close>

definition stored :: "string \<Rightarrow> world \<Rightarrow> world" where
  "stored s w = Storage_write \<lparr>last_spot = JStr s\<rparr> w"


text \<open>
  The directories that \<^verbatim>\<open>mkdir(parents=True)\<close> has to make for the path \<open>t\<close>: those of its
  prefixes that the tree does not have, the shortest first.
\<close>

definition missing :: "fs \<Rightarrow> fpath \<Rightarrow> fs" where
  "missing f t = map (\<lambda>q. (q, Dir)) (filter (\<lambda>q. lstat f q = None) (prefixes t))"

section \<open>Properties\<close>

subsection \<open>Paths survive the trip through a string\<close>

lemma split_on_no_sep: "x \<in> set (split_on sep s) \<Longrightarrow> sep \<notin> set x"
  by (induction s arbitrary: x) (auto split: if_splits list.splits)

lemma split_on_plain: "sep \<notin> set x \<Longrightarrow> split_on sep x = [x]"
  by (induction x) auto

lemma split_on_append: "sep \<notin> set x \<Longrightarrow> split_on sep (x @ sep # s) = x # split_on sep s"
  by (induction x) (auto split: list.splits)

lemma split_join:
  "xs \<noteq> [] \<Longrightarrow> list_all (\<lambda>x. sep \<notin> set x) xs \<Longrightarrow> split_on sep (join_on sep xs) = xs"
  by (induction sep xs rule: join_on.induct) (auto simp: split_on_plain split_on_append)

lemma parts_Path_ok: "list_all is_part (parts (Path s))"
  by (auto simp: Path_def list_all_iff is_part_def dest: split_on_no_sep)

lemma Path_str_abs: "list_all is_part t \<Longrightarrow> Path (str (PPath True t)) = PPath True t"
proof (cases t)
  case Nil
  then show ?thesis by (simp add: Path_def str_def)
next
  case (Cons a as)
  assume ok: "list_all is_part t"
  then have ns: "list_all (\<lambda>x. CHR ''/'' \<notin> set x) t"
    by (simp add: list_all_iff is_part_def)
  have "split_on CHR ''/'' (CHR ''/'' # join_on CHR ''/'' t) = [] # t"
    using split_join [of t "CHR ''/''"] ns Cons by simp
  moreover have "filter (\<lambda>c. c \<noteq> [] \<and> c \<noteq> ''.'') t = t"
    using ok by (auto simp: list_all_iff is_part_def intro!: filter_True)
  ultimately show ?thesis by (simp add: Path_def str_def)
qed

text \<open>Every component of a resolved path is a proper path component.\<close>

lemma realpath_parts:
  "realpath n strict f cur rest = Inr t \<Longrightarrow> list_all is_part cur \<Longrightarrow> list_all is_part rest
   \<Longrightarrow> list_all is_part t"
proof (induction n strict f cur rest arbitrary: t rule: realpath.induct)
  case (1 n strict f cur)
  then show ?case by simp
next
  case (2 n strict f cur c rest)
  from "2.prems"(1) have ns: "\<not> (strict \<and> lstat f cur \<noteq> Some Dir)"
    by (auto split: if_splits)
  have bl: "list_all is_part (butlast cur)"
    using "2.prems"(2) by (auto simp: list_all_iff dest: in_set_butlastD)
  show ?case
  proof (cases "c = ''..''")
    case True
    with "2.prems" ns have "realpath n strict f (butlast cur) rest = Inr t"
      by (auto split: if_splits)
    with "2.IH"(1) [OF ns True] bl "2.prems"(3) show ?thesis by simp
  next
    case False
    show ?thesis
    proof (cases "lstat f (cur @ [c])")
      case None
      with False "2.prems" ns have "\<not> strict" "realpath n strict f (cur @ [c]) rest = Inr t"
        by (auto split: if_splits)
      with "2.IH"(2) [OF ns False None] "2.prems" show ?thesis by simp
    next
      case (Some nd)
      show ?thesis
      proof (cases nd)
        case Dir
        with False Some "2.prems" ns have "realpath n strict f (cur @ [c]) rest = Inr t"
          by (auto split: if_splits)
        with "2.IH"(3) [OF ns False Some Dir] "2.prems" show ?thesis by simp
      next
        case (File x)
        with False Some "2.prems" ns have "realpath n strict f (cur @ [c]) rest = Inr t"
          by (auto split: if_splits)
        with "2.IH"(4) [OF ns False Some File] "2.prems" show ?thesis by simp
      next
        case (Link tg)
        show ?thesis
        proof (cases n)
          case 0
          with False Some Link "2.prems" ns show ?thesis by (auto split: if_splits)
        next
          case (Suc k)
          have "list_all is_part (parts (Path tg) @ rest)"
            using parts_Path_ok [of tg] "2.prems"(3) by simp
          moreover have "list_all is_part (if is_absolute (Path tg) then [] else cur)"
            using "2.prems"(2) by simp
          moreover have "realpath k strict f (if is_absolute (Path tg) then [] else cur)
                           (parts (Path tg) @ rest) = Inr t"
            using False Some Link Suc "2.prems"(1) ns by (auto split: if_splits)
          ultimately show ?thesis
            using "2.IH"(5) [OF ns False Some Link Suc] by simp
        qed
      qed
    qed
  qed
qed

lemma resolve_parts:
  "resolve w p = Inr t \<Longrightarrow> list_all is_part (parts p) \<Longrightarrow> list_all is_part t"
proof -
  assume r: "resolve w p = Inr t" and ok: "list_all is_part (parts p)"
  have "list_all is_part (if is_absolute p then [] else parts (Path (pwd w)))"
    using parts_Path_ok [of "pwd w"] by simp
  from realpath_parts [OF _ this ok] r show ?thesis
    unfolding resolve_def by simp
qed

subsection \<open>The record on disk\<close>

lemma tmp_name: "with_suffix ''spot.json'' ''.tmp'' = ''spot.tmp''"
  by (simp add: with_suffix_def)

lemma read_after_write: "Storage_read (Storage_write s w) = State_kw (asdict s)"
  by (simp add: Storage_read_def Storage_write_def replace_tmp_def fill_tmp_def open_tmp_def
      tmp_name Storage_path_def)

lemma pjoin_abs: "(if \<not> is_absolute new then pjoin c new else new) = pjoin c new"
  by (simp add: pjoin_def)

lemma sample_resolve_w:
  "resolve sample_world (pjoin (cwd sample_manager) (Path ''w'')) = Inr [''home'', ''u'', ''work'']"
  by (simp add: resolve_def sample_world_def sample_manager_def sample_tree_def Path_def
      pjoin_def lstat_def)

lemma sample_resolve_nope:
  "resolve sample_world (pjoin (cwd sample_manager) (arg_or_home sample_world (Some ''nope'')))
     = Inr [''home'', ''u'', ''nope'']"
  by (simp add: resolve_def sample_world_def sample_manager_def sample_tree_def Path_def
      pjoin_def lstat_def arg_or_home_def)

lemma sample_resolve_notes:
  "resolve sample_world (pjoin (cwd sample_manager) (arg_or_home sample_world (Some ''notes'')))
     = Inr [''home'', ''u'', ''notes'']"
  by (simp add: resolve_def sample_world_def sample_manager_def sample_tree_def Path_def
      pjoin_def lstat_def arg_or_home_def)

text \<open>
  C1. Let \<open>p\<close> be a path that names an existing directory: joined to the manager's
  current directory (which an absolute \<open>p\<close> replaces) it resolves to \<open>t\<close>, and \<open>t\<close> is a
  directory. The current directory is a path as \<^verbatim>\<open>pathlib\<close> builds them; this matters
  only when \<open>p\<close> is relative. Then \<open>hop p\<close> returns the text of the absolute resolved path
  \<open>t\<close>, makes it the current directory and writes it to the record; \<open>spot\<close> then returns
  it; the record reads back as that text; and a manager constructed afresh from the
  record has \<open>t\<close> as its current directory and returns the same text from \<open>spot\<close>.
\<close>

theorem hop_spot_round_trip:
  assumes p: "p \<noteq> []"
    and c: "is_absolute (Path p) \<or> list_all is_part (parts (cwd m))"
    and r: "resolve w (pjoin (cwd m) (Path p)) = Inr t"
    and d: "is_dir (tree w) t"
  shows "hop (Some p) m w
           = (Inr (str (PPath True t)), m\<lparr>cwd := PPath True t\<rparr>, persist (m\<lparr>cwd := PPath True t\<rparr>) w)
       \<and> fst (spot (m\<lparr>cwd := PPath True t\<rparr>) (persist (m\<lparr>cwd := PPath True t\<rparr>) w))
           = Inr (str (PPath True t))
       \<and> Storage_read (persist (m\<lparr>cwd := PPath True t\<rparr>) w)
           = Inr \<lparr>last_spot = JStr (str (PPath True t))\<rparr>
       \<and> FileManager (persist (m\<lparr>cwd := PPath True t\<rparr>) w)
           = Inr \<lparr>state = \<lparr>last_spot = JStr (str (PPath True t))\<rparr>, cwd = PPath True t\<rparr>
       \<and> fst (spot \<lparr>state = \<lparr>last_spot = JStr (str (PPath True t))\<rparr>, cwd = PPath True t\<rparr>
                  (persist (m\<lparr>cwd := PPath True t\<rparr>) w))
           = Inr (str (PPath True t))"
proof -
  have ok: "list_all is_part (parts (pjoin (cwd m) (Path p)))"
    using c parts_Path_ok [of p] by (auto simp: pjoin_def)
  have t: "list_all is_part t" using resolve_parts [OF r ok] .
  have rd: "Storage_read (persist (m\<lparr>cwd := PPath True t\<rparr>) w)
           = Inr \<lparr>last_spot = JStr (str (PPath True t))\<rparr>"
    by (simp add: persist_def read_after_write asdict_def)
  have fm: "FileManager (persist (m\<lparr>cwd := PPath True t\<rparr>) w)
           = Inr \<lparr>state = \<lparr>last_spot = JStr (str (PPath True t))\<rparr>, cwd = PPath True t\<rparr>"
    by (simp add: FileManager_def rd Path_str_abs [OF t])
  have h: "hop (Some p) m w
           = (Inr (str (PPath True t)), m\<lparr>cwd := PPath True t\<rparr>, persist (m\<lparr>cwd := PPath True t\<rparr>) w)"
    using p r d by (simp add: hop_def arg_or_home_def pjoin_abs exists_def is_dir_def Let_def)
  show ?thesis using h rd fm by (simp add: spot_def)
qed

theorem hop_spot_round_trip_witness:
  "fst (hop (Some ''w'') sample_manager sample_world) = Inr ''/home/u/work''
   \<and> FileManager (snd (snd (hop (Some ''w'') sample_manager sample_world)))
      = Inr \<lparr>state = \<lparr>last_spot = JStr ''/home/u/work''\<rparr>,
             cwd = PPath True [''home'', ''u'', ''work'']\<rparr>
   \<and> fst (spot \<lparr>state = \<lparr>last_spot = JStr ''/home/u/work''\<rparr>,
                  cwd = PPath True [''home'', ''u'', ''work'']\<rparr>
             (snd (snd (hop (Some ''w'') sample_manager sample_world))))
      = Inr ''/home/u/work''"
proof -
  have a: "''w'' \<noteq> []" by simp
  have b: "is_absolute (Path ''w'') \<or> list_all is_part (parts (cwd sample_manager))"
    by (simp add: sample_manager_def is_part_def)
  have d: "is_dir (tree sample_world) [''home'', ''u'', ''work'']"
    by (simp add: is_dir_def lstat_def sample_world_def sample_tree_def)
  show ?thesis
    using hop_spot_round_trip [OF a b sample_resolve_w d] by (simp add: str_def)
qed

text \<open>
  C2. Let the target of \<open>hop path\<close> resolve to \<open>t\<close>. When \<open>t\<close> does not exist, \<open>hop\<close>
  raises \<^verbatim>\<open>FileNotFoundError\<close>; when \<open>t\<close> exists and is not a directory, it raises
  \<^verbatim>\<open>NotADirectoryError\<close>. In both cases the manager (its current directory) and the world
  (the record with it) are returned as they were.
\<close>

theorem hop_failure_keeps_state:
  assumes "resolve w (pjoin (cwd m) (arg_or_home w path)) = Inr t"
  shows "(\<not> exists (tree w) t \<longrightarrow>
            hop path m w
              = (Inl (FileNotFoundError (''path does not exist: '' @ str (PPath True t))), m, w))
       \<and> (exists (tree w) t \<and> \<not> is_dir (tree w) t \<longrightarrow>
            hop path m w
              = (Inl (NotADirectoryError (''not a directory: '' @ str (PPath True t))), m, w))"
  using assms by (simp add: hop_def pjoin_abs Let_def)

theorem hop_failure_keeps_state_witness:
  "hop (Some ''nope'') sample_manager sample_world
     = (Inl (FileNotFoundError ''path does not exist: /home/u/nope''), sample_manager, sample_world)
   \<and> hop (Some ''notes'') sample_manager sample_world
     = (Inl (NotADirectoryError ''not a directory: /home/u/notes''), sample_manager, sample_world)"
proof -
  have a: "\<not> exists (tree sample_world) [''home'', ''u'', ''nope'']"
    by (simp add: exists_def lstat_def sample_world_def sample_tree_def)
  have b: "exists (tree sample_world) [''home'', ''u'', ''notes'']
           \<and> \<not> is_dir (tree sample_world) [''home'', ''u'', ''notes'']"
    by (simp add: exists_def is_dir_def lstat_def sample_world_def sample_tree_def)
  show ?thesis
    using hop_failure_keeps_state [OF sample_resolve_nope]
      hop_failure_keeps_state [OF sample_resolve_notes] a b
    by (simp add: str_def)
qed

text \<open>
  C5. \<open>Storage.write\<close> writes to \<^verbatim>\<open>spot.tmp\<close>, a name in the directory of the record,
  and in every state of the directory that the write passes through (before it, with the
  temporary file emptied, with the document written to it, after the rename) the record
  holds what it held before or the whole new document. After the last step the record is
  the new document and the temporary file is gone.
\<close>

theorem write_replaces_in_one_step:
  "with_suffix Storage_path ''.tmp'' = ''spot.tmp''
   \<and> list_all (\<lambda>c'. c' Storage_path = c Storage_path
                    \<or> c' Storage_path = Some (JsonDoc (asdict s))) (write_steps s c)
   \<and> last (write_steps s c) Storage_path = Some (JsonDoc (asdict s))
   \<and> last (write_steps s c) (with_suffix Storage_path ''.tmp'') = None
   \<and> conf (Storage_write s w) = last (write_steps s (conf w))"
  by (simp add: write_steps_def Storage_write_def replace_tmp_def fill_tmp_def open_tmp_def
      tmp_name Storage_path_def)

text \<open>
  C6. \<open>Storage.read\<close> catches \<^verbatim>\<open>json.JSONDecodeError\<close> and nothing else. On a record that
  holds the JSON document \<^verbatim>\<open>{}\<close> it raises \<^verbatim>\<open>TypeError\<close>, and on a record whose bytes
  are not UTF-8 it raises \<^verbatim>\<open>UnicodeDecodeError\<close>.
\<close>

theorem read_raises_on_other_json:
  "Storage_read (sample_world\<lparr>conf := [Storage_path \<mapsto> JsonDoc (JObj [])]\<rparr>)
     = Inl (TypeError (''State.__init__() missing 1 required positional argument: ''
                         @ quoted ''last_spot''))
   \<and> Storage_read (sample_world\<lparr>conf := [Storage_path \<mapsto> Undecodable]\<rparr>) = Inl UnicodeDecodeError"
  by (simp add: Storage_read_def)

subsection \<open>What the operations leave alone\<close>

lemma kwalk_conf [simp]: "kwalk (w\<lparr>conf := k\<rparr>) p = kwalk w p"
  by (simp add: kwalk_def)
lemma stat_conf [simp]: "stat (w\<lparr>conf := k\<rparr>) p = stat w p"
  by (simp add: stat_def cong: sum.case_cong)
lemma Path_is_dir_conf [simp]: "Path_is_dir (w\<lparr>conf := k\<rparr>) p = Path_is_dir w p"
  by (simp add: Path_is_dir_def)
lemma iterdir_conf [simp]: "iterdir (w\<lparr>conf := k\<rparr>) p = iterdir w p"
  by (simp add: iterdir_def cong: sum.case_cong node.case_cong)
lemma resolve_conf [simp]: "resolve (w\<lparr>conf := k\<rparr>) p = resolve w p"
  by (simp add: resolve_def)
lemma peek_row_conf [simp]: "peek_row (w\<lparr>conf := k\<rparr>) root = peek_row w root"
  by (rule ext) (simp add: peek_row_def)
lemma peek_key_conf [simp]: "peek_key (w\<lparr>conf := k\<rparr>) root = peek_key w root"
  by (rule ext) (simp add: peek_key_def)


lemma frame_list: "list_names (m\<lparr>state := st\<rparr>) (w\<lparr>conf := k\<rparr>)
   = (case list_names m w of (r, m', w') \<Rightarrow> (r, m'\<lparr>state := st\<rparr>, w'\<lparr>conf := k\<rparr>))"
  by (simp add: list_names_def)







lemma persist_conf: "persist m (w\<lparr>conf := k\<rparr>) = (persist m w)\<lparr>conf := conf (persist m (w\<lparr>conf := k\<rparr>))\<rparr>"
  by (simp add: persist_def Storage_write_def)

lemma persist_state [simp]: "persist (m\<lparr>state := st\<rparr>) w = persist m w"
  by (simp add: persist_def)

lemma arg_or_home_conf [simp]: "arg_or_home (w\<lparr>conf := k\<rparr>) p = arg_or_home w p"
  by (simp add: arg_or_home_def split: option.split)












lemma stored_fields [simp]:
  "pwd (stored s w) = pwd w" "environ (stored s w) = environ w" "tree (stored s w) = tree w"
  by (simp_all add: stored_def Storage_write_def)






subsection \<open>Direct commands\<close>



subsection \<open>The burrow is not entered twice\<close>




subsection \<open>How a failing command ends\<close>

text \<open>
  C8. \<^verbatim>\<open>filebunny bury nope\<close> where \<^verbatim>\<open>nope\<close> does not exist: \<open>delete\<close> raises, nothing in
  \<^verbatim>\<open>main\<close> catches it, and the error stream gets the record of \<^verbatim>\<open>log_errors\<close> and the
  traceback. The same failure of \<^verbatim>\<open>hop\<close> is caught and reported in a line (after the
  record of \<^verbatim>\<open>log_errors\<close>).
\<close>

theorem bury_failure_is_a_traceback:
  "status (main sample_host [''bury'', ''nope''] sample_world) = 1
   \<and> stdout (main sample_host [''bury'', ''nope''] sample_world) = []
   \<and> stderr (main sample_host [''bury'', ''nope''] sample_world)
       = [Log ''ERROR'' (''ERROR in delete: [Errno 2] No such file or directory: ''
                          @ quoted ''/home/u/nope''),
          Traceback (FileNotFoundError (''[Errno 2] No such file or directory: ''
                                          @ quoted ''/home/u/nope''))]
   \<and> status (main sample_host [''hop'', ''nope''] sample_world) = 1
   \<and> stderr (main sample_host [''hop'', ''nope''] sample_world)
       = [Log ''ERROR'' ''ERROR in hop: path does not exist: /home/u/nope'',
          Write (''hop error: path does not exist: /home/u/nope'' @ [nl])]"
  by code_simp

subsection \<open>Making directories and files\<close>

lemma proper_prefixes_snoc [simp]: "proper_prefixes (xs @ [x]) = prefixes xs"
  by (simp add: proper_prefixes_def)

lemma proper_prefixes_Nil [simp]: "proper_prefixes [] = []"
  by (simp add: proper_prefixes_def)

lemma map_of_dirs: "map_of (map (\<lambda>q. (q, Dir)) ps) q = (if q \<in> set ps then Some Dir else None)"
  by (induction ps) auto

lemma lstat_append:
  "lstat (f @ e) q = (case lstat f q of None \<Rightarrow> map_of e q | Some x \<Rightarrow> Some x)"
  by (auto simp: lstat_def map_add_def split: option.splits)

lemma lstat_missing:
  "lstat (f @ missing f t) q = (if lstat f q = None \<and> prefix q t then Some Dir else lstat f q)"
  by (auto simp: lstat_append missing_def map_of_dirs split: option.splits)

lemma find_in: "find P xs = Some x \<Longrightarrow> x \<in> set xs \<and> P x"
  by (induction xs) (auto split: if_splits)

lemma parent_error_None:
  "parent_error f t = None \<longleftrightarrow> list_all (\<lambda>q. lstat f q = Some Dir) (proper_prefixes t)"
proof (cases "find (\<lambda>q. lstat f q \<noteq> Some Dir) (proper_prefixes t)")
  case None
  then have "list_all (\<lambda>q. lstat f q = Some Dir) (proper_prefixes t)"
    by (auto simp: find_None_iff list_all_iff)
  with None show ?thesis by (simp add: parent_error_def)
next
  case (Some q)
  from find_in [OF this] Some show ?thesis
    by (auto simp: parent_error_def list_all_iff)
qed

lemma parent_error_first:
  assumes "list_all (\<lambda>q. lstat f q = None \<or> lstat f q = Some Dir) (proper_prefixes t)"
    and "\<not> list_all (\<lambda>q. lstat f q = Some Dir) (proper_prefixes t)"
  shows "parent_error f t
           = Some (FileNotFoundError (os_msg ''[Errno 2] No such file or directory'' t))"
proof (cases "find (\<lambda>q. lstat f q \<noteq> Some Dir) (proper_prefixes t)")
  case None
  with assms(2) show ?thesis by (auto simp: find_None_iff list_all_iff)
next
  case (Some q)
  from find_in [OF this] assms(1) have "lstat f q = None" by (auto simp: list_all_iff)
  with Some show ?thesis by (simp add: parent_error_def)
qed

lemma mkdir_exists:
  assumes "list_all (\<lambda>q. lstat f q = Some Dir) (prefixes t)"
  shows "mkdir_parents t f = Inr f"
proof -
  have "lstat f t = Some Dir" using assms by (simp add: list_all_iff)
  moreover have "parent_error f t = None"
    using assms by (auto simp: parent_error_None proper_prefixes_def list_all_iff dest: in_set_butlastD)
  ultimately show ?thesis
    by (subst mkdir_parents.simps) (simp add: os_mkdir_def exists_def is_dir_def)
qed

lemma mkdir_parents_missing:
  "list_all (\<lambda>q. lstat f q = None \<or> lstat f q = Some Dir) (prefixes t) \<Longrightarrow>
   mkdir_parents t f = Inr (f @ missing f t)"
proof (induction t rule: rev_induct)
  case Nil
  have "mkdir_parents [] f = Inr f"
    by (rule mkdir_exists) (simp add: lstat_def)
  then show ?case by (simp add: missing_def lstat_def)
next
  case (snoc x xs)
  let ?t = "xs @ [x]"
  from snoc.prems have H: "list_all (\<lambda>q. lstat f q = None \<or> lstat f q = Some Dir) (prefixes xs)"
    and T: "lstat f ?t = None \<or> lstat f ?t = Some Dir"
    by simp_all
  have m: "missing f ?t = missing f xs @ (if lstat f ?t = None then [(?t, Dir)] else [])"
    by (simp add: missing_def)
  show ?case
  proof (cases "list_all (\<lambda>q. lstat f q = Some Dir) (prefixes xs)")
    case True
    then have pe: "parent_error f ?t = None" by (simp add: parent_error_None)
    from True have e: "missing f xs = []"
      by (auto simp: missing_def list_all_iff filter_empty_conv)
    show ?thesis
    proof (cases "lstat f ?t")
      case None
      with pe e m show ?thesis
        by (subst mkdir_parents.simps) (simp add: os_mkdir_def exists_def)
    next
      case (Some nd)
      with T have "lstat f ?t = Some Dir" by simp
      with pe e m show ?thesis
        by (subst mkdir_parents.simps) (simp add: os_mkdir_def exists_def is_dir_def)
    qed
  next
    case False
    from parent_error_first [of f ?t] H False
    obtain y where pe: "parent_error f ?t = Some (FileNotFoundError y)" by auto
    let ?f1 = "f @ missing f xs"
    have ih: "mkdir_parents xs f = Inr ?f1" using snoc.IH [OF H] .
    have all: "list_all (\<lambda>q. lstat ?f1 q = Some Dir) (prefixes xs)"
      using H by (auto simp: list_all_iff lstat_missing)
    then have pe1: "parent_error ?f1 ?t = None" by (simp add: parent_error_None)
    have same: "lstat ?f1 ?t = lstat f ?t" by (simp add: lstat_missing)
    show ?thesis
    proof (cases "lstat f ?t")
      case None
      with pe ih pe1 same m show ?thesis
        by (subst mkdir_parents.simps) (simp add: os_mkdir_def exists_def)
    next
      case (Some nd)
      with T have "lstat f ?t = Some Dir" by simp
      with pe ih pe1 same m show ?thesis
        by (subst mkdir_parents.simps) (simp add: os_mkdir_def exists_def is_dir_def)
    qed
  qed
qed


lemma realpath_links:
  "\<forall>q s. (lstat f' q = Some (Link s)) = (lstat f q = Some (Link s)) \<Longrightarrow> \<not> strict \<Longrightarrow>
   realpath n strict f' cur rest = realpath n strict f cur rest"
proof (induction n strict f cur rest rule: realpath.induct)
  case (1 n strict f cur)
  show ?case by simp
next
  case (2 n strict f cur c rest)
  note ag = "2.prems"(1)
  have ns: "\<not> (strict \<and> lstat f cur \<noteq> Some Dir)" using "2.prems" by simp
  show ?case
  proof (cases "c = ''..''")
    case True
    with "2.IH"(1) [OF ns True] "2.prems" show ?thesis by simp
  next
    case False
    show ?thesis
    proof (cases "lstat f (cur @ [c])")
      case None
      have "realpath n strict f' (cur @ [c]) rest = realpath n strict f (cur @ [c]) rest"
        using "2.IH"(2) [OF ns False None] "2.prems" by simp
      moreover have "\<And>s. lstat f' (cur @ [c]) \<noteq> Some (Link s)"
        using ag None by simp
      ultimately show ?thesis
        using False None "2.prems"(2)
        by (cases "lstat f' (cur @ [c])") (auto split: node.splits)
    next
      case (Some nd)
      show ?thesis
      proof (cases nd)
        case Dir
        have "realpath n strict f' (cur @ [c]) rest = realpath n strict f (cur @ [c]) rest"
          using "2.IH"(3) [OF ns False Some Dir] "2.prems" by simp
        moreover have "\<And>s. lstat f' (cur @ [c]) \<noteq> Some (Link s)"
          using ag Some Dir by simp
        ultimately show ?thesis
          using False Some Dir "2.prems"(2)
          by (cases "lstat f' (cur @ [c])") (auto split: node.splits)
      next
        case (File x)
        have "realpath n strict f' (cur @ [c]) rest = realpath n strict f (cur @ [c]) rest"
          using "2.IH"(4) [OF ns False Some File] "2.prems" by simp
        moreover have "\<And>s. lstat f' (cur @ [c]) \<noteq> Some (Link s)"
          using ag Some File by simp
        ultimately show ?thesis
          using False Some File "2.prems"(2)
          by (cases "lstat f' (cur @ [c])") (auto split: node.splits)
      next
        case (Link tg)
        have l': "lstat f' (cur @ [c]) = Some (Link tg)"
          using ag Some Link by simp
        show ?thesis
        proof (cases n)
          case 0
          with False Some Link l' "2.prems"(2) show ?thesis by simp
        next
          case (Suc k)
          have "realpath k strict f' (if is_absolute (Path tg) then [] else cur)
                  (parts (Path tg) @ rest)
                = realpath k strict f (if is_absolute (Path tg) then [] else cur)
                    (parts (Path tg) @ rest)"
            using "2.IH"(5) [OF ns False Some Link Suc "2.prems"] .
          with False Some Link l' Suc "2.prems"(2) show ?thesis by simp
        qed
      qed
    qed
  qed
qed

lemma proper_prefixes_butlast: "t \<noteq> [] \<Longrightarrow> proper_prefixes t = prefixes (butlast t)"
  by (cases t rule: rev_cases) simp_all

lemma prefix_butlast: "t \<noteq> [] \<Longrightarrow> \<not> prefix t (butlast t)"
  using prefix_length_le [of t "butlast t"] by (cases t) auto

text \<open>
  C9. Let the path of \<open>carrot p\<close> resolve to \<open>t\<close>, with no ancestor of \<open>t\<close> a regular file
  or a link (each is a directory or missing). Then \<open>carrot\<close> returns the text of \<open>t\<close>;
  afterwards every ancestor of \<open>t\<close> is a directory; \<open>t\<close> is an empty file if it was
  absent; every entry the tree had is as it was (so a file that was there keeps its
  text); and \<open>carrot p\<close> called again returns the same text and leaves the manager and
  the world as the first call left them.
\<close>

theorem carrot_creates_and_keeps:
  assumes r: "resolve w (pjoin (cwd m) (Path p)) = Inr t"
    and H: "list_all (\<lambda>q. lstat (tree w) q = None \<or> lstat (tree w) q = Some Dir)
              (prefixes (butlast t))"
  shows "fst (carrot p m w) = Inr (str (PPath True t))
       \<and> list_all (\<lambda>q. lstat (tree (snd (snd (carrot p m w)))) q = Some Dir) (prefixes (butlast t))
       \<and> (lstat (tree w) t = None \<longrightarrow> lstat (tree (snd (snd (carrot p m w)))) t = Some (File []))
       \<and> (\<forall>q x. lstat (tree w) q = Some x \<longrightarrow> lstat (tree (snd (snd (carrot p m w)))) q = Some x)
       \<and> carrot p m (snd (snd (carrot p m w)))
           = (Inr (str (PPath True t)), m, snd (snd (carrot p m w)))"
proof -
  define f where "f = tree w"
  define f1 where "f1 = f @ missing f (butlast t)"
  define f2 where "f2 = f1 @ (if lstat f t = None then [(t, File [])] else [])"
  have H': "list_all (\<lambda>q. lstat f q = None \<or> lstat f q = Some Dir) (prefixes (butlast t))"
    using H by (simp add: f_def)
  have mk: "mkdir_parents (butlast t) f = Inr f1"
    unfolding f1_def using mkdir_parents_missing [OF H'] .
  have l1: "lstat f1 q = (if lstat f q = None \<and> prefix q (butlast t) then Some Dir else lstat f q)" for q
    unfolding f1_def by (rule lstat_missing)
  have dirs1: "list_all (\<lambda>q. lstat f1 q = Some Dir) (prefixes (butlast t))"
    using H' by (auto simp: list_all_iff l1)
  have same: "lstat f1 t = lstat f t"
  proof (cases "t = []")
    case True
    then show ?thesis by (simp add: lstat_def)
  next
    case False
    then show ?thesis by (simp add: l1 prefix_butlast)
  qed
  have pe: "t \<noteq> [] \<Longrightarrow> parent_error f1 t = None"
    using dirs1 by (simp add: parent_error_None proper_prefixes_butlast)
  have root: "t = [] \<Longrightarrow> lstat f t \<noteq> None" by (simp add: lstat_def)
  have tc: "touch t f1 = Inr f2"
    using same pe root unfolding f2_def by (cases "t = []") (auto simp: touch_def exists_def)
  have c1: "carrot p m w = (Inr (str (PPath True t)), m, w\<lparr>tree := f2\<rparr>)"
    using r mk tc by (simp add: carrot_def f_def)
  have l2: "lstat f2 q = (case lstat f1 q of
                            None \<Rightarrow> (if lstat f t = None \<and> q = t then Some (File []) else None)
                          | Some x \<Rightarrow> Some x)" for q
    unfolding f2_def by (subst lstat_append) (simp split: option.split)
  have keep: "lstat f q = Some x \<Longrightarrow> lstat f2 q = Some x" for q x
    by (simp add: l2 l1)
  have dirs2: "list_all (\<lambda>q. lstat f2 q = Some Dir) (prefixes (butlast t))"
    using dirs1 by (simp add: list_all_iff l2)
  have new: "lstat f t = None \<Longrightarrow> lstat f2 t = Some (File [])"
    using same by (simp add: l2)
  have ex2: "exists f2 t"
    using same by (cases "lstat f t") (simp_all add: exists_def l2)
  have links: "\<forall>q s. (lstat f2 q = Some (Link s)) = (lstat f q = Some (Link s))"
    by (auto simp: l2 l1 split: option.splits if_splits)
  have r2: "resolve (w\<lparr>tree := f2\<rparr>) (pjoin (cwd m) (Path p)) = Inr t"
    using r realpath_links [OF links, of False]
    by (cases "is_absolute (pjoin (cwd m) (Path p))") (simp_all add: resolve_def f_def)
  have mk2: "mkdir_parents (butlast t) f2 = Inr f2" using mkdir_exists [OF dirs2] .
  have c2: "carrot p m (w\<lparr>tree := f2\<rparr>) = (Inr (str (PPath True t)), m, w\<lparr>tree := f2\<rparr>)"
    using r2 mk2 ex2 by (simp add: carrot_def touch_def)
  show ?thesis
    using c2 dirs2 new keep unfolding c1 by (simp add: f_def)
qed

theorem carrot_creates_and_keeps_witness:
  "fst (carrot ''new/deep/file.txt'' sample_manager sample_world) = Inr ''/home/u/new/deep/file.txt''
   \<and> lstat (tree (snd (snd (carrot ''new/deep/file.txt'' sample_manager sample_world))))
         [''home'', ''u'', ''new'', ''deep'']
       = Some Dir
   \<and> lstat (tree (snd (snd (carrot ''new/deep/file.txt'' sample_manager sample_world))))
         [''home'', ''u'', ''new'', ''deep'', ''file.txt'']
       = Some (File [])
   \<and> fst (carrot ''notes'' sample_manager sample_world) = Inr ''/home/u/notes''
   \<and> lstat (tree (snd (snd (carrot ''notes'' sample_manager sample_world)))) [''home'', ''u'', ''notes'']
       = Some (File ''abc'')"
proof -
  have r1: "resolve sample_world (pjoin (cwd sample_manager) (Path ''new/deep/file.txt''))
              = Inr [''home'', ''u'', ''new'', ''deep'', ''file.txt'']"
    by (simp add: resolve_def sample_world_def sample_manager_def sample_tree_def Path_def
        pjoin_def lstat_def)
  have h1: "list_all (\<lambda>q. lstat (tree sample_world) q = None \<or> lstat (tree sample_world) q = Some Dir)
              (prefixes (butlast [''home'', ''u'', ''new'', ''deep'', ''file.txt'']))"
    by (simp add: sample_world_def sample_tree_def lstat_def)
  have n1: "lstat (tree sample_world) [''home'', ''u'', ''new'', ''deep'', ''file.txt''] = None"
    by (simp add: sample_world_def sample_tree_def lstat_def)
  have r2: "resolve sample_world (pjoin (cwd sample_manager) (Path ''notes''))
              = Inr [''home'', ''u'', ''notes'']"
    by (simp add: resolve_def sample_world_def sample_manager_def sample_tree_def Path_def
        pjoin_def lstat_def)
  have h2: "list_all (\<lambda>q. lstat (tree sample_world) q = None \<or> lstat (tree sample_world) q = Some Dir)
              (prefixes (butlast [''home'', ''u'', ''notes'']))"
    by (simp add: sample_world_def sample_tree_def lstat_def)
  have n2: "lstat (tree sample_world) [''home'', ''u'', ''notes''] = Some (File ''abc'')"
    by (simp add: sample_world_def sample_tree_def lstat_def)
  show ?thesis
    using carrot_creates_and_keeps [OF r1 h1] carrot_creates_and_keeps [OF r2 h2] n1 n2
    by (simp add: str_def)
qed

subsection \<open>Deleting through a link\<close>









end
